theory Spec2Isabelle
  imports Complex_Main
begin

section \<open>Numbers, dates and time-of-day strings\<close>

text \<open>
  The engine of \<^verbatim>\<open>src/utils/notificationDecisionEngine.ts\<close> works on JavaScript
  numbers and \<^verbatim>\<open>Date\<close> objects. A number that the engine reads from a string or from a
  \<^verbatim>\<open>Date\<close> is an integer or \<^verbatim>\<open>NaN\<close>; every comparison with \<^verbatim>\<open>NaN\<close> is false.
  A \<^verbatim>\<open>Date\<close> is its time value: milliseconds as an integer, or \<^verbatim>\<open>NaN\<close> for an
  Invalid Date.

  Two things are fixed by the embedding. The local time zone is a fixed offset from UTC
  (no daylight-saving change), and the integer of a date counts local milliseconds, so
  that a day has 86400000 of them. The \<^verbatim>\<open>frequencyMultiplier\<close> is a rational number,
  divided exactly.
\<close>

datatype number = NaN | Num int

type_synonym date = number

definition num_lt :: "number \<Rightarrow> number \<Rightarrow> bool" where
  "num_lt a b = (case (a, b) of (Num x, Num y) \<Rightarrow> x < y | _ \<Rightarrow> False)"

definition num_le :: "number \<Rightarrow> number \<Rightarrow> bool" where
  "num_le a b = (case (a, b) of (Num x, Num y) \<Rightarrow> x \<le> y | _ \<Rightarrow> False)"

definition num_gt :: "number \<Rightarrow> number \<Rightarrow> bool" where
  "num_gt a b = num_lt b a"

definition num_ge :: "number \<Rightarrow> number \<Rightarrow> bool" where
  "num_ge a b = num_le b a"

definition num_eq :: "number \<Rightarrow> number \<Rightarrow> bool" where
  \<comment> \<open>\<^verbatim>\<open>===\<close> on numbers\<close>
  "num_eq a b = (case (a, b) of (Num x, Num y) \<Rightarrow> x = y | _ \<Rightarrow> False)"

definition num_add :: "number \<Rightarrow> number \<Rightarrow> number" where
  "num_add a b = (case (a, b) of (Num x, Num y) \<Rightarrow> Num (x + y) | _ \<Rightarrow> NaN)"

definition num_sub :: "number \<Rightarrow> number \<Rightarrow> number" where
  "num_sub a b = (case (a, b) of (Num x, Num y) \<Rightarrow> Num (x - y) | _ \<Rightarrow> NaN)"

definition num_mul :: "number \<Rightarrow> number \<Rightarrow> number" where
  "num_mul a b = (case (a, b) of (Num x, Num y) \<Rightarrow> Num (x * y) | _ \<Rightarrow> NaN)"

definition getHours :: "date \<Rightarrow> number" where
  "getHours d = (case d of Num t \<Rightarrow> Num ((t div 3600000) mod 24) | NaN \<Rightarrow> NaN)"

definition getMinutes :: "date \<Rightarrow> number" where
  "getMinutes d = (case d of Num t \<Rightarrow> Num ((t div 60000) mod 60) | NaN \<Rightarrow> NaN)"

definition setHours :: "date \<Rightarrow> number \<Rightarrow> number \<Rightarrow> date" where
  \<comment> \<open>\<^verbatim>\<open>d.setHours(h, m, 0, 0)\<close>: the same local day, at \<open>h:m:00.000\<close>\<close>
  "setHours d h m =
     (case (d, h, m) of
        (Num t, Num hh, Num mm) \<Rightarrow> Num ((t div 86400000) * 86400000 + hh * 3600000 + mm * 60000)
      | _ \<Rightarrow> NaN)"

definition addDays :: "date \<Rightarrow> int \<Rightarrow> date" where
  \<comment> \<open>\<^verbatim>\<open>d.setDate(d.getDate() + k)\<close>\<close>
  "addDays d k = num_add d (Num (k * 86400000))"

definition trunc :: "rat \<Rightarrow> int" where
  \<comment> \<open>the \<^verbatim>\<open>Date\<close> constructor drops the fraction of a millisecond, towards zero\<close>
  "trunc r = (if 0 \<le> r then \<lfloor>r\<rfloor> else \<lceil>r\<rceil>)"

text \<open>
  \<^verbatim>\<open>s.split(':').map(Number)\<close>, destructured into two variables. \<open>Number\<close> is modelled on
  strings of decimal digits (the empty string is 0), which is what the application
  stores (\<^verbatim>\<open>"HH:MM"\<close> from a time input, \<^verbatim>\<open>"HH:MM:SS"\<close> from the database column); any
  other string is taken to give \<^verbatim>\<open>NaN\<close>. A missing second part is \<^verbatim>\<open>undefined\<close>, which
  every use below turns into \<^verbatim>\<open>NaN\<close>.
\<close>

fun split_colon :: "string \<Rightarrow> string list" where
  "split_colon [] = [[]]"
| "split_colon (c # cs) =
     (if c = CHR '':'' then [] # split_colon cs
      else (case split_colon cs of p # ps \<Rightarrow> (c # p) # ps | [] \<Rightarrow> [[c]]))"

definition digit_of :: "char \<Rightarrow> int option" where
  "digit_of c = map_of (zip ''0123456789'' [0, 1, 2, 3, 4, 5, 6, 7, 8, 9]) c"

fun digits_value :: "int \<Rightarrow> string \<Rightarrow> number" where
  "digits_value acc [] = Num acc"
| "digits_value acc (c # cs) =
     (case digit_of c of None \<Rightarrow> NaN | Some d \<Rightarrow> digits_value (10 * acc + d) cs)"

definition Number :: "string \<Rightarrow> number" where
  "Number s = digits_value 0 s"

definition split_hm :: "string \<Rightarrow> number \<times> number" where
  "split_hm s =
     (case map Number (split_colon s) of
        h # m # _ \<Rightarrow> (h, m)
      | [h] \<Rightarrow> (h, NaN)
      | [] \<Rightarrow> (NaN, NaN))"

section \<open>The data model\<close>

record Task =
  id_T :: string
  title :: string
  due_date :: "date option"
  status :: string
  priority :: string
  estimated_duration :: "int option"
  category :: "string option"

text \<open>
  \<open>due_date\<close> is \<open>None\<close> for a missing, null or empty \<^verbatim>\<open>due_date\<close> (the falsy values),
  and otherwise the \<^verbatim>\<open>Date\<close> that \<^verbatim>\<open>new Date(task.due_date)\<close> builds from the string,
  Invalid (\<open>NaN\<close>) when the string does not parse. \<open>estimated_duration\<close> and \<open>category\<close>
  are \<open>None\<close> when missing.
\<close>

record UserProfile =
  work_hours_start :: string
  work_hours_end :: string
  peak_energy_time :: "string option"

record UserNotificationPreferences =
  frequencyMultiplier :: rat
  minimumLeadTime :: int
  disabledPriorities :: "string list"
  quietHoursStart :: string
  quietHoursEnd :: string

definition DEFAULT_NOTIFICATION_PREFERENCES :: UserNotificationPreferences where
  "DEFAULT_NOTIFICATION_PREFERENCES =
     \<lparr>frequencyMultiplier = 1, minimumLeadTime = 5, disabledPriorities = [],
      quietHoursStart = ''22:00'', quietHoursEnd = ''07:00''\<rparr>"

datatype ntype = AdvanceNotice | Reminder | FinalReminder | Overdue | DailySummary

datatype level = High | Medium | Low

datatype urgency = UUrgent | UNormal | ULow | UOverdue

record NotificationContent =
  c_title :: string
  body :: string
  urgencyLevel :: urgency
  timeRemaining :: "string option"
  actionText :: "string option"

record ScheduledNotificationTime =
  time :: date
  reason :: string
  type_N :: ntype
  priority_N :: level
  content :: NotificationContent

record NotificationSchedule =
  taskId :: string
  taskTitle :: string
  notifications :: "ScheduledNotificationTime list"

section \<open>Time-window utilities\<close>

definition hasSpecificTime :: "date \<Rightarrow> bool" where
  "hasSpecificTime dueDate =
     (let hours = getHours dueDate; minutes = getMinutes dueDate
      in \<not> (num_eq hours (Num 0) \<and> num_eq minutes (Num 0)))"

definition getPeakEnergyHours :: "string option \<Rightarrow> int \<times> int" where
  "getPeakEnergyHours preference =
     (if preference = Some ''morning'' then (8, 12)
      else if preference = Some ''afternoon'' then (12, 17)
      else if preference = Some ''evening'' then (17, 21)
      else (9, 12))"

definition getLeadTimeForDuration :: "int option \<Rightarrow> int" where
  "getLeadTimeForDuration durationMinutes =
     (case durationMinutes of
        None \<Rightarrow> 15
      | Some d \<Rightarrow>
          if d = 0 then 15
          else if d \<ge> 120 then 30
          else if d \<ge> 60 then 20
          else if d \<le> 30 then 10
          else 15)"

definition isWithinWorkHours :: "date \<Rightarrow> UserProfile \<Rightarrow> bool" where
  "isWithinWorkHours d profile =
     (let (startHour, startMin) = split_hm (work_hours_start profile);
          (endHour, endMin) = split_hm (work_hours_end profile);
          hour = getHours d;
          minute = getMinutes d;
          timeValue = num_add (num_mul hour (Num 60)) minute;
          startValue = num_add (num_mul startHour (Num 60)) startMin;
          endValue = num_add (num_mul endHour (Num 60)) endMin
      in num_ge timeValue startValue \<and> num_le timeValue endValue)"

definition isInQuietHours :: "date \<Rightarrow> UserNotificationPreferences \<Rightarrow> bool" where
  "isInQuietHours d prefs =
     (let (startHour, startMin) = split_hm (quietHoursStart prefs);
          (endHour, endMin) = split_hm (quietHoursEnd prefs);
          hour = getHours d;
          minute = getMinutes d;
          timeValue = num_add (num_mul hour (Num 60)) minute;
          quietStart = num_add (num_mul startHour (Num 60)) startMin;
          quietEnd = num_add (num_mul endHour (Num 60)) endMin
      in if num_gt quietStart quietEnd
         then num_ge timeValue quietStart \<or> num_le timeValue quietEnd
         else num_ge timeValue quietStart \<and> num_le timeValue quietEnd)"

definition adjustToWorkHours :: "date \<Rightarrow> UserProfile \<Rightarrow> bool \<Rightarrow> date" where
  "adjustToWorkHours d profile isWorkTask =
     (if \<not> isWorkTask then d
      else
        let (startHour, startMin) = split_hm (work_hours_start profile);
            (endHour, endMin) = split_hm (work_hours_end profile);
            adjusted = d;
            hour = getHours adjusted
        in if num_lt hour startHour then setHours adjusted startHour startMin
           else if num_gt hour endHour then setHours adjusted endHour endMin
           else adjusted)"


section \<open>The content generator\<close>

text \<open>
  A template literal writes an integer in decimal, and \<^verbatim>\<open>undefined\<close> as the word
  \<^verbatim>\<open>undefined\<close>.
\<close>

fun show_nat :: "nat \<Rightarrow> string" where
  "show_nat n =
     (if n < 10 then [''0123456789'' ! n]
      else show_nat (n div 10) @ [''0123456789'' ! (n mod 10)])"

definition show_int :: "int \<Rightarrow> string" where
  "show_int i = (if i < 0 then CHR ''-'' # show_nat (nat (- i)) else show_nat (nat i))"

definition plural :: "int \<Rightarrow> string" where
  \<comment> \<open>\<^verbatim>\<open>n > 1 ? 's' : ''\<close>\<close>
  "plural n = (if n > 1 then ''s'' else '''')"

definition formatTimeRemaining :: "date \<Rightarrow> date \<Rightarrow> string" where
  "formatTimeRemaining targetDate fromDate =
     (case num_sub targetDate fromDate of
        NaN \<Rightarrow> ''Due now''
      | Num diffMs \<Rightarrow>
          let diffMins = diffMs div (1000 * 60);
              diffHours = diffMins div 60;
              diffDays = diffHours div 24
          in if diffMins < 0 then
               let overdueMins = \<bar>diffMins\<bar>;
                   overdueHours = overdueMins div 60;
                   overdueDays = overdueHours div 24
               in if overdueDays > 0 then
                    ''Due '' @ show_int overdueDays @ '' day'' @ plural overdueDays @ '' ago''
                  else if overdueHours > 0 then
                    ''Due '' @ show_int overdueHours @ '' hour'' @ plural overdueHours @ '' ago''
                  else
                    ''Due '' @ show_int overdueMins @ '' minute'' @ plural overdueMins @ '' ago''
             else if diffDays > 0 then
               ''Due in '' @ show_int diffDays @ '' day'' @ plural diffDays
             else if diffHours > 0 then
               ''Due in '' @ show_int diffHours @ '' hour'' @ plural diffHours
             else if diffMins > 0 then
               ''Due in '' @ show_int diffMins @ '' minute'' @ plural diffMins
             else ''Due now'')"

text \<open>
  With an Invalid Date every number above is \<^verbatim>\<open>NaN\<close>, every test fails, and the
  function falls through to its last line. The titles begin with a pictograph, written
  here as its UTF-8 bytes.
\<close>

definition pic :: "nat list \<Rightarrow> string" where
  "pic bs = map char_of bs"

definition template_opt :: "string option \<Rightarrow> string" where
  \<comment> \<open>\<^verbatim>\<open>${timeRemaining}\<close>\<close>
  "template_opt s = (case s of None \<Rightarrow> ''undefined'' | Some x \<Rightarrow> x)"

definition or_else :: "string option \<Rightarrow> string \<Rightarrow> string" where
  \<comment> \<open>\<^verbatim>\<open>timeRemaining || dflt\<close>: the empty string is falsy too\<close>
  "or_else s dflt = (case s of None \<Rightarrow> dflt | Some x \<Rightarrow> if x = [] then dflt else x)"

definition generateNotificationContent ::
  "date \<Rightarrow> Task \<Rightarrow> ntype \<Rightarrow> date option \<Rightarrow> int \<Rightarrow> NotificationContent" where
  \<comment> \<open>the first argument is the reading of the clock that \<open>formatTimeRemaining\<close> takes by default\<close>
  "generateNotificationContent clockNow task type dueDate existingOverdueReminders =
     (let timeRemaining =
            (case dueDate of None \<Rightarrow> None | Some d \<Rightarrow> Some (formatTimeRemaining d clockNow))
      in if priority task = ''high'' then
           (case type of
              AdvanceNotice \<Rightarrow>
                \<lparr>c_title = pic [240, 159, 148, 180] @ '' High priority task due soon!'',
                 body = [CHR 0x22] @ title task @ [CHR 0x22] @ '' - '' @ template_opt timeRemaining,
                 urgencyLevel = UUrgent, timeRemaining = timeRemaining,
                 actionText = Some ''Plan now''\<rparr>
            | Reminder \<Rightarrow>
                \<lparr>c_title = pic [226, 154, 160, 239, 184, 143] @ '' High priority: '' @ title task,
                 body = or_else timeRemaining ''Action required'',
                 urgencyLevel = UUrgent, timeRemaining = timeRemaining,
                 actionText = Some ''Start now''\<rparr>
            | FinalReminder \<Rightarrow>
                \<lparr>c_title = pic [240, 159, 154, 168] @ '' Starting Soon: '' @ title task,
                 body = template_opt timeRemaining @ '' - This needs your attention now!'',
                 urgencyLevel = UUrgent, timeRemaining = timeRemaining,
                 actionText = Some ''Start immediately''\<rparr>
            | Overdue \<Rightarrow>
                \<lparr>c_title = pic [240, 159, 146, 170] @ '' Ready to tackle this?'',
                 body = [CHR 0x22] @ title task @ [CHR 0x22] @ '' - '' @ template_opt timeRemaining
                   @ ''. Reminder '' @ show_int (existingOverdueReminders + 1) @ '' of 3.'',
                 urgencyLevel = UOverdue, timeRemaining = timeRemaining,
                 actionText = Some ''Complete now''\<rparr>
            | DailySummary \<Rightarrow>
                \<lparr>c_title = pic [240, 159, 142, 175] @ '' High Priority: '' @ title task,
                 body = ''Consider tackling this during your peak energy time'',
                 urgencyLevel = UUrgent, timeRemaining = None,
                 actionText = Some ''View task''\<rparr>)
         else if priority task = ''medium'' then
           (case type of
              Reminder \<Rightarrow>
                \<lparr>c_title = pic [240, 159, 147, 139] @ '' Reminder: '' @ title task,
                 body = or_else timeRemaining ''Scheduled for today'',
                 urgencyLevel = UNormal, timeRemaining = timeRemaining,
                 actionText = Some ''View''\<rparr>
            | Overdue \<Rightarrow>
                \<lparr>c_title = pic [240, 159, 146, 170] @ '' Ready to tackle this?'',
                 body = [CHR 0x22] @ title task @ [CHR 0x22] @ '' - '' @ template_opt timeRemaining,
                 urgencyLevel = UOverdue, timeRemaining = timeRemaining,
                 actionText = Some ''Complete''\<rparr>
            | _ \<Rightarrow>
                \<lparr>c_title = pic [240, 159, 147, 139] @ '' '' @ title task,
                 body = or_else timeRemaining ''Task reminder'',
                 urgencyLevel = UNormal, timeRemaining = timeRemaining,
                 actionText = None\<rparr>)
         else
           \<lparr>c_title = pic [240, 159, 147, 140] @ '' '' @ title task,
            body = or_else timeRemaining ''Task reminder'',
            urgencyLevel = ULow, timeRemaining = timeRemaining,
            actionText = None\<rparr>)"

section \<open>The schedule calculator\<close>

text \<open>
  \<open>calculateNotificationSchedule\<close> reads the clock once, into \<^verbatim>\<open>now\<close>; that reading is the
  argument \<open>now\<close>, always a valid date. Each content it generates reads the clock again:
  \<open>clock k\<close> is the reading taken for the content of the notification pushed when \<open>k\<close> are
  already in the list. The blocks of the function body are separate definitions, in the
  order of the source, and the local array \<^verbatim>\<open>notifications\<close> is passed through them.
\<close>

definition addNotification ::
  "int \<Rightarrow> (nat \<Rightarrow> int) \<Rightarrow> Task \<Rightarrow> UserProfile \<Rightarrow> int \<Rightarrow> UserNotificationPreferences \<Rightarrow> date
   \<Rightarrow> date \<Rightarrow> string \<Rightarrow> ntype \<Rightarrow> level
   \<Rightarrow> ScheduledNotificationTime list \<Rightarrow> ScheduledNotificationTime list" where
  "addNotification now clock task profile existingOverdueReminders preferences dueDate
     t rsn type priorityLevel ns =
     (let adjustedTime = adjustToWorkHours t profile (category task = Some ''work'')
      in if isInQuietHours adjustedTime preferences then ns
         else
           let minLeadTime = Num (now + minimumLeadTime preferences * 60 * 1000)
           in if num_le adjustedTime minLeadTime then ns
              else
                let content = generateNotificationContent (Num (clock (length ns))) task type
                                (Some dueDate) existingOverdueReminders
                in ns @ [\<lparr>time = adjustedTime, reason = rsn, type_N = type,
                           priority_N = priorityLevel, content = content\<rparr>])"

definition noDueDate ::
  "int \<Rightarrow> Task \<Rightarrow> UserProfile \<Rightarrow> UserNotificationPreferences \<Rightarrow> ScheduledNotificationTime list" where
  \<comment> \<open>lines 327 to 351\<close>
  "noDueDate now task profile preferences =
     (if priority task = ''high'' then
        let peakHours = getPeakEnergyHours (peak_energy_time profile);
            reminderTime = setHours (addDays (Num now) 1) (Num (fst peakHours)) (Num 0)
        in if category task = Some ''work'' then
             let adjustedTime = adjustToWorkHours reminderTime profile True
             in if num_gt adjustedTime (Num now) \<and> \<not> isInQuietHours adjustedTime preferences then
                  [\<lparr>time = adjustedTime,
                    reason = ''High priority task without deadline - peak energy reminder'',
                    type_N = DailySummary, priority_N = High,
                    content = generateNotificationContent (Num now) task DailySummary None 0\<rparr>]
                else []
           else []
      else [])"

definition overdueInterval :: "int \<Rightarrow> rat \<Rightarrow> date" where
  \<comment> \<open>\<^verbatim>\<open>new Date(now.getTime() + baseInterval / frequencyMultiplier)\<close>; a division by zero
      is infinite, and the date Invalid\<close>
  "overdueInterval now f =
     (if f = 0 then NaN else Num (trunc (of_int now + (4 * 60 * 60 * 1000) / f)))"

definition overdueBranch ::
  "int \<Rightarrow> (nat \<Rightarrow> int) \<Rightarrow> Task \<Rightarrow> UserProfile \<Rightarrow> int \<Rightarrow> UserNotificationPreferences \<Rightarrow> date
   \<Rightarrow> ScheduledNotificationTime list" where
  \<comment> \<open>lines 391 to 424\<close>
  "overdueBranch now clock task profile existingOverdueReminders preferences dueDate =
     (if priority task = ''high'' then
        (if existingOverdueReminders < 3 then
           let nextReminder = overdueInterval now (frequencyMultiplier preferences)
           in addNotification now clock task profile existingOverdueReminders preferences dueDate
                nextReminder
                (''Overdue high priority - reminder '' @ show_int (existingOverdueReminders + 1)
                   @ '' of 3'')
                Overdue High []
         else [])
      else if priority task = ''medium'' then
        let reminderTime0 = setHours (Num now) (Num 9) (Num 0);
            reminderTime = (if num_le reminderTime0 (Num now) then addDays reminderTime0 1
                            else reminderTime0)
        in addNotification now clock task profile existingOverdueReminders preferences dueDate
             reminderTime ''Overdue medium priority - daily reminder'' Overdue Medium []
      else [])"

definition highSpecificTime ::
  "int \<Rightarrow> (nat \<Rightarrow> int) \<Rightarrow> Task \<Rightarrow> UserProfile \<Rightarrow> int \<Rightarrow> UserNotificationPreferences \<Rightarrow> date
   \<Rightarrow> ScheduledNotificationTime list \<Rightarrow> ScheduledNotificationTime list" where
  \<comment> \<open>lines 435 to 483\<close>
  "highSpecificTime now clock task profile existingOverdueReminders preferences dueDate ns0 =
     (let addN = addNotification now clock task profile existingOverdueReminders preferences dueDate;
          shouldAddExtraNotifications = (frequencyMultiplier preferences \<ge> 3 / 2);
          shouldReduceNotifications = (frequencyMultiplier preferences \<le> 1 / 2);
          leadTime = getLeadTimeForDuration (estimated_duration task);
          twentyFourHoursBefore = num_sub dueDate (Num (24 * 60 * 60 * 1000));
          ns1 = (if \<not> shouldReduceNotifications \<and> num_gt twentyFourHoursBefore (Num now)
                 then addN twentyFourHoursBefore ''24hr advance notice for high priority''
                        AdvanceNotice High ns0
                 else ns0);
          twoHoursBefore = num_sub dueDate (Num (2 * 60 * 60 * 1000));
          ns2 = (if num_gt twoHoursBefore (Num now)
                 then addN twoHoursBefore ''2hr reminder before scheduled time'' Reminder High ns1
                 else ns1);
          finalReminder = num_sub dueDate (Num (leadTime * 60 * 1000));
          ns3 = (if num_gt finalReminder (Num now)
                 then addN finalReminder (show_int leadTime @ ''min final reminder'')
                        FinalReminder High ns2
                 else ns2);
          sixHoursBefore = num_sub dueDate (Num (6 * 60 * 60 * 1000))
      in if shouldAddExtraNotifications \<and> num_gt sixHoursBefore (Num now)
         then addN sixHoursBefore ''6hr early warning for high priority'' Reminder High ns3
         else ns3)"

definition dayTimes :: "bool \<Rightarrow> (int \<times> int \<times> string) list" where
  \<comment> \<open>the array \<^verbatim>\<open>times\<close> of lines 487 to 493\<close>
  "dayTimes shouldReduceNotifications =
     (if shouldReduceNotifications then [(9, 0, ''morning'')]
      else [(9, 0, ''morning''), (14, 0, ''afternoon''), (18, 0, ''evening'')])"

definition highDateOnly ::
  "int \<Rightarrow> (nat \<Rightarrow> int) \<Rightarrow> Task \<Rightarrow> UserProfile \<Rightarrow> int \<Rightarrow> UserNotificationPreferences \<Rightarrow> date
   \<Rightarrow> bool \<Rightarrow> ScheduledNotificationTime list \<Rightarrow> ScheduledNotificationTime list" where
  \<comment> \<open>lines 485 to 521\<close>
  "highDateOnly now clock task profile existingOverdueReminders preferences dueDate isDueToday ns0 =
     (let addN = addNotification now clock task profile existingOverdueReminders preferences dueDate;
          shouldReduceNotifications = (frequencyMultiplier preferences \<le> 1 / 2);
          ns1 = foldl (\<lambda>ns (hour, minute, label).
                   let notifTime = setHours dueDate (Num hour) (Num minute)
                   in if num_gt notifTime (Num now)
                      then addN notifTime (''High priority due date - '' @ label @ '' reminder'')
                             Reminder High ns
                      else ns)
                  ns0 (dayTimes shouldReduceNotifications);
          twentyFourHoursBefore =
            setHours (num_sub dueDate (Num (24 * 60 * 60 * 1000))) (Num 9) (Num 0)
      in if \<not> shouldReduceNotifications \<and> num_gt twentyFourHoursBefore (Num now) \<and> \<not> isDueToday
         then addN twentyFourHoursBefore ''24hr advance notice for high priority''
                AdvanceNotice High ns1
         else ns1)"

definition mediumBranch ::
  "int \<Rightarrow> (nat \<Rightarrow> int) \<Rightarrow> Task \<Rightarrow> UserProfile \<Rightarrow> int \<Rightarrow> UserNotificationPreferences \<Rightarrow> date
   \<Rightarrow> bool \<Rightarrow> ScheduledNotificationTime list \<Rightarrow> ScheduledNotificationTime list" where
  \<comment> \<open>lines 526 to 565\<close>
  "mediumBranch now clock task profile existingOverdueReminders preferences dueDate specificTime ns0 =
     (let addN = addNotification now clock task profile existingOverdueReminders preferences dueDate;
          shouldAddExtraNotifications = (frequencyMultiplier preferences \<ge> 3 / 2)
      in if specificTime then
           let twoHoursBefore = num_sub dueDate (Num (2 * 60 * 60 * 1000));
               ns1 = (if num_gt twoHoursBefore (Num now)
                      then addN twoHoursBefore ''2hr reminder for medium priority task''
                             Reminder Medium ns0
                      else ns0);
               fifteenMinBefore = num_sub dueDate (Num (15 * 60 * 1000))
           in if shouldAddExtraNotifications \<and> num_gt fifteenMinBefore (Num now)
              then addN fifteenMinBefore ''15min final reminder for medium priority''
                     FinalReminder Medium ns1
              else ns1
         else
           let reminderTime = setHours dueDate (Num 9) (Num 0)
           in if num_gt reminderTime (Num now)
              then addN reminderTime ''Medium priority due date - morning reminder''
                     Reminder Medium ns0
              else ns0)"

text \<open>
  \<^verbatim>\<open>notifications.sort((a, b) => a.time.getTime() - b.time.getTime())\<close>. The sort of an
  array is stable, and a comparison that gives \<^verbatim>\<open>NaN\<close> counts as equal. On valid dates
  the result is the one stable sort by time, computed here by insertion; with an Invalid
  Date in the array the language leaves the order to the implementation, and the
  insertion below is one such order.
\<close>

definition compareTime :: "ScheduledNotificationTime \<Rightarrow> ScheduledNotificationTime \<Rightarrow> number" where
  "compareTime a b = num_sub (time a) (time b)"

fun insertByTime ::
  "ScheduledNotificationTime \<Rightarrow> ScheduledNotificationTime list \<Rightarrow> ScheduledNotificationTime list" where
  "insertByTime x [] = [x]"
| "insertByTime x (y # ys) =
     (if num_gt (compareTime x y) (Num 0) then y # insertByTime x ys else x # y # ys)"

definition sortByTime :: "ScheduledNotificationTime list \<Rightarrow> ScheduledNotificationTime list" where
  "sortByTime ns = foldr insertByTime ns []"

definition calculateNotificationSchedule ::
  "int \<Rightarrow> (nat \<Rightarrow> int) \<Rightarrow> Task \<Rightarrow> UserProfile \<Rightarrow> int \<Rightarrow> UserNotificationPreferences
   \<Rightarrow> NotificationSchedule" where
  "calculateNotificationSchedule now clock task profile existingOverdueReminders preferences =
     (let result = (\<lambda>ns. \<lparr>taskId = id_T task, taskTitle = title task, notifications = ns\<rparr>)
      in if status task = ''completed'' then result []
         else if priority task \<in> set (disabledPriorities preferences) then result []
         else if priority task = ''low'' then result []
         else
           (case due_date task of
              None \<Rightarrow> result (noDueDate now task profile preferences)
            | Some dueDate \<Rightarrow>
                let dueDateStart = setHours dueDate (Num 0) (Num 0);
                    todayStart = setHours (Num now) (Num 0) (Num 0);
                    isOverdue = num_lt dueDateStart todayStart;
                    isDueToday = num_eq dueDateStart todayStart;
                    specificTime = hasSpecificTime dueDate
                in if isOverdue then
                     result (overdueBranch now clock task profile existingOverdueReminders
                               preferences dueDate)
                   else
                     let ns1 = (if priority task = ''high'' then
                                  (if specificTime then
                                     highSpecificTime now clock task profile
                                       existingOverdueReminders preferences dueDate []
                                   else
                                     highDateOnly now clock task profile
                                       existingOverdueReminders preferences dueDate isDueToday [])
                                else []);
                         ns2 = (if priority task = ''medium'' then
                                  mediumBranch now clock task profile existingOverdueReminders
                                    preferences dueDate specificTime ns1
                                else ns1)
                     in result (sortByTime ns2)))"

text \<open>
  A time-of-day string, as the profile and the preferences are meant to hold: two parts
  of decimal digits, an hour below 24 and a minute below 60.
\<close>

definition timeOfDay :: "string \<Rightarrow> bool" where
  "timeOfDay s =
     (case split_hm s of
        (Num h, Num m) \<Rightarrow> 0 \<le> h \<and> h < 24 \<and> 0 \<le> m \<and> m < 60
      | _ \<Rightarrow> False)"

definition hourOfDay :: "int \<Rightarrow> int" where
  \<comment> \<open>\<^verbatim>\<open>getHours()\<close> of a valid date\<close>
  "hourOfDay t = (t div 3600000) mod 24"

definition minuteOfDay :: "int \<Rightarrow> int" where
  \<comment> \<open>\<^verbatim>\<open>getHours() * 60 + getMinutes()\<close> of a valid date\<close>
  "minuteOfDay t = ((t div 3600000) mod 24) * 60 + (t div 60000) mod 60"

text \<open>
  What the admission test of \<open>addNotification\<close> lets through: a time that is the work-hours
  adjustment of a valid candidate, is not in quiet hours, and is not at or before the
  minimum lead time. \<open>appends Q k ns0 ns\<close> says that \<open>ns\<close> is \<open>ns0\<close> followed by at most \<open>k\<close>
  entries, each with the property \<open>Q\<close>.
\<close>

definition admitted ::
  "int \<Rightarrow> Task \<Rightarrow> UserProfile \<Rightarrow> UserNotificationPreferences \<Rightarrow> ScheduledNotificationTime
   \<Rightarrow> bool" where
  "admitted now task profile prefs n =
     (\<not> isInQuietHours (time n) prefs \<and>
      \<not> num_le (time n) (Num (now + minimumLeadTime prefs * 60 * 1000)) \<and>
      (\<exists>u. time n = adjustToWorkHours (Num u) profile (category task = Some ''work'')))"

definition appends :: "('a \<Rightarrow> bool) \<Rightarrow> nat \<Rightarrow> 'a list \<Rightarrow> 'a list \<Rightarrow> bool" where
  "appends Q k ns0 ns = (\<exists>xs. ns = ns0 @ xs \<and> length xs \<le> k \<and> list_all Q xs)"

text \<open>Sample data, for evaluating the engine on concrete inputs.\<close>

definition localTime :: "int \<Rightarrow> int \<Rightarrow> int \<Rightarrow> int" where
  \<comment> \<open>the instant \<open>h:m\<close> of day number \<open>d\<close>\<close>
  "localTime d h m = d * 86400000 + h * 3600000 + m * 60000"

definition sampleProfile :: UserProfile where
  "sampleProfile =
     \<lparr>work_hours_start = ''09:00'', work_hours_end = ''18:00'',
      peak_energy_time = Some ''morning''\<rparr>"

definition sampleTask :: Task where
  "sampleTask =
     \<lparr>id_T = ''t1'', title = ''Report'', due_date = None, status = ''not_started'',
      priority = ''high'', estimated_duration = Some 90, category = Some ''work''\<rparr>"

section \<open>Numbers and dates: evaluation rules\<close>

lemma num_lt_simps:
  "num_lt (Num x) (Num y) = (x < y)" "num_lt NaN b = False" "num_lt a NaN = False"
  by (simp_all add: num_lt_def split: number.splits)

lemma num_le_simps:
  "num_le (Num x) (Num y) = (x \<le> y)" "num_le NaN b = False" "num_le a NaN = False"
  by (simp_all add: num_le_def split: number.splits)

lemma num_gt_simps:
  "num_gt (Num x) (Num y) = (y < x)" "num_gt NaN b = False" "num_gt a NaN = False"
  by (simp_all add: num_gt_def num_lt_simps)

lemma num_ge_simps:
  "num_ge (Num x) (Num y) = (y \<le> x)" "num_ge NaN b = False" "num_ge a NaN = False"
  by (simp_all add: num_ge_def num_le_simps)

lemma num_eq_simps:
  "num_eq (Num x) (Num y) = (x = y)" "num_eq NaN b = False" "num_eq a NaN = False"
  by (simp_all add: num_eq_def split: number.splits)

lemma num_arith_simps:
  "num_add (Num x) (Num y) = Num (x + y)" "num_add NaN b = NaN" "num_add a NaN = NaN"
  "num_sub (Num x) (Num y) = Num (x - y)" "num_sub NaN b = NaN" "num_sub a NaN = NaN"
  "num_mul (Num x) (Num y) = Num (x * y)" "num_mul NaN b = NaN" "num_mul a NaN = NaN"
  by (simp_all add: num_add_def num_sub_def num_mul_def split: number.splits)

lemmas num_simps =
  num_lt_simps num_le_simps num_gt_simps num_ge_simps num_eq_simps num_arith_simps

lemma date_simps:
  "getHours (Num t) = Num ((t div 3600000) mod 24)" "getHours NaN = NaN"
  "getMinutes (Num t) = Num ((t div 60000) mod 60)" "getMinutes NaN = NaN"
  "setHours (Num t) (Num h) (Num m) = Num ((t div 86400000) * 86400000 + h * 3600000 + m * 60000)"
  "setHours NaN a b = NaN" "setHours d NaN b = NaN" "setHours d a NaN = NaN"
  "addDays (Num t) k = Num (t + k * 86400000)" "addDays NaN k = NaN"
  by (simp_all add: getHours_def getMinutes_def setHours_def addDays_def num_arith_simps
      split: number.splits)

section \<open>Lead time by duration\<close>

text \<open>
  C6, as amended. \<open>getLeadTimeForDuration\<close> gives 30 minutes from 120 minutes of duration on,
  20 from 60 to below 120, 10 up to 30 except for a duration of 0, 15 between 30 and 60,
  and 15 when the duration is missing or is 0, which the first test of the function
  takes for a missing one.
\<close>

theorem C6_lead_time_table:
  "getLeadTimeForDuration None = 15 \<and>
   (d = 0 \<longrightarrow> getLeadTimeForDuration (Some d) = 15) \<and>
   (120 \<le> d \<longrightarrow> getLeadTimeForDuration (Some d) = 30) \<and>
   (60 \<le> d \<and> d < 120 \<longrightarrow> getLeadTimeForDuration (Some d) = 20) \<and>
   (d \<le> 30 \<and> d \<noteq> 0 \<longrightarrow> getLeadTimeForDuration (Some d) = 10) \<and>
   (30 < d \<and> d < 60 \<longrightarrow> getLeadTimeForDuration (Some d) = 15)"
  by (simp add: getLeadTimeForDuration_def)

theorem C6_lead_time_table_witness:
  "getLeadTimeForDuration (Some 0) = 15 \<and> getLeadTimeForDuration (Some 150) = 30 \<and>
   getLeadTimeForDuration (Some 90) = 20 \<and> getLeadTimeForDuration (Some 20) = 10 \<and>
   getLeadTimeForDuration (Some (- 5)) = 10 \<and> getLeadTimeForDuration (Some 45) = 15"
  using C6_lead_time_table [of 0] C6_lead_time_table [of 150] C6_lead_time_table [of 90]
    C6_lead_time_table [of 20] C6_lead_time_table [of "- 5"] C6_lead_time_table [of 45]
  by simp

text \<open>
  C6 as the specification states it fails at a duration of 0 minutes: 0 is at most 30,
  and the lead time is 15, not 10.
\<close>

theorem C6_zero_duration_counterexample:
  "(0::int) \<le> 30 \<and> getLeadTimeForDuration (Some 0) \<noteq> 10"
  by (simp add: getLeadTimeForDuration_def)

section \<open>Quiet hours\<close>

lemma isInQuietHours_valid:
  assumes "split_hm (quietHoursStart prefs) = (Num sh, Num sm)"
    and "split_hm (quietHoursEnd prefs) = (Num eh, Num em)"
  shows "isInQuietHours (Num t) prefs =
           (if sh * 60 + sm > eh * 60 + em
            then minuteOfDay t \<ge> sh * 60 + sm \<or> minuteOfDay t \<le> eh * 60 + em
            else minuteOfDay t \<ge> sh * 60 + sm \<and> minuteOfDay t \<le> eh * 60 + em)"
  using assms by (simp add: isInQuietHours_def minuteOfDay_def date_simps num_simps)

lemma split_hm_2200: "split_hm ''22:00'' = (Num 22, Num 0)"
  by (simp add: split_hm_def Number_def digit_of_def)

lemma split_hm_0700: "split_hm ''07:00'' = (Num 7, Num 0)"
  by (simp add: split_hm_def Number_def digit_of_def)

text \<open>
  C8. \<open>isInQuietHours\<close> compares minutes of the day. When the start of the quiet hours is
  later than their end, a valid date is in quiet hours if and only if its minute of the
  day is at least the start or at most the end. With quiet hours from \<^verbatim>\<open>"22:00"\<close> to
  \<^verbatim>\<open>"07:00"\<close>, whatever the other preferences are, a date at 23:30 is in quiet hours
  and a date at 08:00 is not.
\<close>

theorem C8_quiet_hours_wrap:
  "(split_hm (quietHoursStart prefs) = (Num sh, Num sm) \<and>
    split_hm (quietHoursEnd prefs) = (Num eh, Num em) \<and> sh * 60 + sm > eh * 60 + em \<longrightarrow>
      isInQuietHours (Num t) prefs =
        (minuteOfDay t \<ge> sh * 60 + sm \<or> minuteOfDay t \<le> eh * 60 + em)) \<and>
   (quietHoursStart prefs = ''22:00'' \<and> quietHoursEnd prefs = ''07:00'' \<longrightarrow>
      (getHours d1 = Num 23 \<and> getMinutes d1 = Num 30 \<longrightarrow> isInQuietHours d1 prefs) \<and>
      (getHours d2 = Num 8 \<and> getMinutes d2 = Num 0 \<longrightarrow> \<not> isInQuietHours d2 prefs))"
proof (intro conjI impI)
  assume "split_hm (quietHoursStart prefs) = (Num sh, Num sm) \<and>
    split_hm (quietHoursEnd prefs) = (Num eh, Num em) \<and> sh * 60 + sm > eh * 60 + em"
  then show "isInQuietHours (Num t) prefs =
        (minuteOfDay t \<ge> sh * 60 + sm \<or> minuteOfDay t \<le> eh * 60 + em)"
    by (simp add: isInQuietHours_valid)
next
  assume q: "quietHoursStart prefs = ''22:00'' \<and> quietHoursEnd prefs = ''07:00''"
    and d: "getHours d1 = Num 23 \<and> getMinutes d1 = Num 30"
  show "isInQuietHours d1 prefs"
    using q d by (simp add: isInQuietHours_def split_hm_2200 split_hm_0700 num_simps)
next
  assume q: "quietHoursStart prefs = ''22:00'' \<and> quietHoursEnd prefs = ''07:00''"
    and d: "getHours d2 = Num 8 \<and> getMinutes d2 = Num 0"
  show "\<not> isInQuietHours d2 prefs"
    using q d by (simp add: isInQuietHours_def split_hm_2200 split_hm_0700 num_simps)
qed

theorem C8_quiet_hours_wrap_witness:
  "isInQuietHours (Num 84600000) DEFAULT_NOTIFICATION_PREFERENCES \<and>
   \<not> isInQuietHours (Num 28800000) DEFAULT_NOTIFICATION_PREFERENCES \<and>
   isInQuietHours (Num 3600000) DEFAULT_NOTIFICATION_PREFERENCES"
  using C8_quiet_hours_wrap [of DEFAULT_NOTIFICATION_PREFERENCES 22 0 7 0 3600000
      "Num 84600000" "Num 28800000"]
  by (simp add: DEFAULT_NOTIFICATION_PREFERENCES_def split_hm_2200 split_hm_0700
      date_simps minuteOfDay_def)

section \<open>Time remaining\<close>

lemma div_60_24: "(a::int) div 60 div 24 = a div 1440"
  by (simp add: zdiv_zmult2_eq [symmetric])

text \<open>
  C9, as amended. With \<open>m\<close> the whole minutes of the difference between the target and the
  start instant, rounded down: a negative \<open>m\<close> is rendered as \<^verbatim>\<open>Due N unit ago\<close> and a
  positive one as \<^verbatim>\<open>Due in N unit\<close>, in days if there is a whole day, else in hours if
  there is a whole hour, else in minutes, and \<open>m = 0\<close>, that is a difference from 0 to
  59999 milliseconds, is rendered as \<^verbatim>\<open>Due now\<close>.
\<close>

theorem C9_format_time_remaining:
  assumes "m = (tgt - frm) div 60000"
  shows "(m \<le> - 1440 \<longrightarrow> formatTimeRemaining (Num tgt) (Num frm) =
            ''Due '' @ show_int (- m div 1440) @ '' day'' @ plural (- m div 1440) @ '' ago'') \<and>
         (- 1440 < m \<and> m \<le> - 60 \<longrightarrow> formatTimeRemaining (Num tgt) (Num frm) =
            ''Due '' @ show_int (- m div 60) @ '' hour'' @ plural (- m div 60) @ '' ago'') \<and>
         (- 60 < m \<and> m < 0 \<longrightarrow> formatTimeRemaining (Num tgt) (Num frm) =
            ''Due '' @ show_int (- m) @ '' minute'' @ plural (- m) @ '' ago'') \<and>
         (m = 0 \<longrightarrow> formatTimeRemaining (Num tgt) (Num frm) = ''Due now'') \<and>
         (0 < m \<and> m < 60 \<longrightarrow> formatTimeRemaining (Num tgt) (Num frm) =
            ''Due in '' @ show_int m @ '' minute'' @ plural m) \<and>
         (60 \<le> m \<and> m < 1440 \<longrightarrow> formatTimeRemaining (Num tgt) (Num frm) =
            ''Due in '' @ show_int (m div 60) @ '' hour'' @ plural (m div 60)) \<and>
         (1440 \<le> m \<longrightarrow> formatTimeRemaining (Num tgt) (Num frm) =
            ''Due in '' @ show_int (m div 1440) @ '' day'' @ plural (m div 1440))"
proof -
  have f: "formatTimeRemaining (Num tgt) (Num frm) =
     (if m < 0 then
        if \<bar>m\<bar> div 1440 > 0 then
           ''Due '' @ show_int (\<bar>m\<bar> div 1440) @ '' day'' @ plural (\<bar>m\<bar> div 1440) @ '' ago''
        else if \<bar>m\<bar> div 60 > 0 then
           ''Due '' @ show_int (\<bar>m\<bar> div 60) @ '' hour'' @ plural (\<bar>m\<bar> div 60) @ '' ago''
        else ''Due '' @ show_int \<bar>m\<bar> @ '' minute'' @ plural \<bar>m\<bar> @ '' ago''
      else if m div 1440 > 0 then ''Due in '' @ show_int (m div 1440) @ '' day'' @ plural (m div 1440)
      else if m div 60 > 0 then ''Due in '' @ show_int (m div 60) @ '' hour'' @ plural (m div 60)
      else if m > 0 then ''Due in '' @ show_int m @ '' minute'' @ plural m
      else ''Due now'')"
    unfolding formatTimeRemaining_def using assms
    by (simp add: num_arith_simps Let_def div_60_24)
  have d1: "0 < a div 1440 \<longleftrightarrow> 1440 \<le> a" for a :: int
    by (simp add: pos_imp_zdiv_pos_iff)
  have d2: "0 < a div 60 \<longleftrightarrow> 60 \<le> a" for a :: int
    by (simp add: pos_imp_zdiv_pos_iff)
  show ?thesis
    unfolding f by (auto simp: d1 d2)
qed

theorem C9_format_time_remaining_witness:
  "formatTimeRemaining (Num 0) (Num (3 * 86400000)) = ''Due 3 days ago'' \<and>
   formatTimeRemaining (Num 0) (Num 3600000) = ''Due 1 hour ago'' \<and>
   formatTimeRemaining (Num 0) (Num 1) = ''Due 1 minute ago'' \<and>
   formatTimeRemaining (Num 5) (Num 5) = ''Due now'' \<and>
   formatTimeRemaining (Num 1500000) (Num 0) = ''Due in 25 minutes'' \<and>
   formatTimeRemaining (Num 7200000) (Num 0) = ''Due in 2 hours'' \<and>
   formatTimeRemaining (Num 86400000) (Num 0) = ''Due in 1 day''"
  using C9_format_time_remaining [of "- 4320" 0 "3 * 86400000"]
    C9_format_time_remaining [of "- 60" 0 3600000]
    C9_format_time_remaining [of "- 1" 0 1]
    C9_format_time_remaining [of 0 5 5]
    C9_format_time_remaining [of 25 1500000 0]
    C9_format_time_remaining [of 120 7200000 0]
    C9_format_time_remaining [of 1440 86400000 0]
  by (simp add: show_int_def plural_def)

text \<open>
  C9 as the specification states it fails for a target 30 seconds after the start
  instant: the difference is neither negative nor exactly zero, no unit is nonzero, and
  the text is \<^verbatim>\<open>Due now\<close>.
\<close>

theorem C9_sub_minute_counterexample:
  "(0::int) \<le> 30000 - 0 \<and> (30000::int) - 0 \<noteq> 0 \<and>
   formatTimeRemaining (Num 30000) (Num 0) = ''Due now''"
  by (simp add: formatTimeRemaining_def num_arith_simps)

section \<open>Tasks that get no notification\<close>

text \<open>
  C5. A task that is completed, or of low priority, or of a priority that the preferences
  disable, gets an empty list of notifications, whatever the other arguments are.
\<close>

theorem C5_no_notifications:
  assumes "status task = ''completed'' \<or> priority task = ''low'' \<or>
           priority task \<in> set (disabledPriorities preferences)"
  shows "notifications
           (calculateNotificationSchedule now clock task profile existingOverdueReminders
              preferences) = []"
  using assms by (auto simp: calculateNotificationSchedule_def)

theorem C5_no_notifications_witness:
  "notifications
     (calculateNotificationSchedule 0 (\<lambda>k. 0)
        (sampleTask\<lparr>due_date := Some (Num 86400000), status := ''completed''\<rparr>)
        sampleProfile 0 DEFAULT_NOTIFICATION_PREFERENCES) = [] \<and>
   notifications
     (calculateNotificationSchedule 0 (\<lambda>k. 0)
        (sampleTask\<lparr>due_date := Some (Num 86400000), priority := ''low''\<rparr>)
        sampleProfile 0 DEFAULT_NOTIFICATION_PREFERENCES) = [] \<and>
   notifications
     (calculateNotificationSchedule 0 (\<lambda>k. 0)
        (sampleTask\<lparr>due_date := Some (Num 86400000), priority := ''medium''\<rparr>)
        sampleProfile 0
        (DEFAULT_NOTIFICATION_PREFERENCES\<lparr>disabledPriorities := [''medium'']\<rparr>)) = []"
  using
    C5_no_notifications [of
        "sampleTask\<lparr>due_date := Some (Num 86400000), status := ''completed''\<rparr>"
        DEFAULT_NOTIFICATION_PREFERENCES 0 "\<lambda>k. 0" sampleProfile 0]
    C5_no_notifications [of
        "sampleTask\<lparr>due_date := Some (Num 86400000), priority := ''low''\<rparr>"
        DEFAULT_NOTIFICATION_PREFERENCES 0 "\<lambda>k. 0" sampleProfile 0]
    C5_no_notifications [of
        "sampleTask\<lparr>due_date := Some (Num 86400000), priority := ''medium''\<rparr>"
        "DEFAULT_NOTIFICATION_PREFERENCES\<lparr>disabledPriorities := [''medium'']\<rparr>"
        0 "\<lambda>k. 0" sampleProfile 0]
  by (simp add: sampleTask_def)

section \<open>The admission test and the blocks of the calculator\<close>

lemma num_gt_valid: "num_gt t (Num x) \<Longrightarrow> \<exists>u. t = Num u"
  by (cases t) (simp_all add: num_simps)

lemma appends_refl: "appends Q k ns ns"
  by (simp add: appends_def)

lemma appends_mono: "appends Q k ns0 ns \<Longrightarrow> k \<le> k' \<Longrightarrow> appends Q k' ns0 ns"
  by (auto simp: appends_def)

lemma appends_trans:
  "appends Q k ns0 ns1 \<Longrightarrow> appends Q j ns1 ns2 \<Longrightarrow> appends Q (k + j) ns0 ns2"
  by (auto simp: appends_def)

lemma appends_length: "appends Q k ns0 ns \<Longrightarrow> length ns \<le> length ns0 + k"
  by (auto simp: appends_def)


lemma addNotification_appends:
  assumes "t = Num u"
  shows "appends (admitted now task profile prefs) 1 ns
           (addNotification now clock task profile e prefs due t r ty lv ns)"
  using assms
  by (auto simp: appends_def addNotification_def Let_def admitted_def)

lemma appends_step:
  assumes "appends (admitted now task profile prefs) k ns0 ns"
    and "c \<Longrightarrow> num_gt t (Num now)"
  shows "appends (admitted now task profile prefs) (Suc k) ns0
           (if c then addNotification now clock task profile e prefs due t r ty lv ns else ns)"
proof (cases c)
  case True
  then obtain u where "t = Num u"
    using assms(2) num_gt_valid by blast
  then have "appends (admitted now task profile prefs) 1 ns
           (addNotification now clock task profile e prefs due t r ty lv ns)"
    by (rule addNotification_appends)
  with assms(1) have "appends (admitted now task profile prefs) (k + 1) ns0
           (addNotification now clock task profile e prefs due t r ty lv ns)"
    by (rule appends_trans)
  with True show ?thesis by simp
next
  case False
  with assms(1) show ?thesis by (simp add: appends_mono)
qed

lemma highSpecificTime_appends:
  "appends (admitted now task profile prefs) 4 ns0
     (highSpecificTime now clock task profile e prefs due ns0)"
proof -
  have "appends (admitted now task profile prefs) (Suc (Suc (Suc (Suc 0)))) ns0
     (highSpecificTime now clock task profile e prefs due ns0)"
    unfolding highSpecificTime_def Let_def
    by (intro appends_step appends_refl) simp_all
  then show ?thesis by (simp add: eval_nat_numeral)
qed

lemma dayTimes_fold_appends:
  "appends (admitted now task profile prefs) k ns0 ns \<Longrightarrow>
   appends (admitted now task profile prefs) (k + length ts) ns0
     (foldl (\<lambda>ns (hour, minute, label).
               let notifTime = setHours due (Num hour) (Num minute)
               in if num_gt notifTime (Num now)
                  then addNotification now clock task profile e prefs due notifTime
                         (''High priority due date - '' @ label @ '' reminder'') Reminder High ns
                  else ns) ns ts)"
proof (induction ts arbitrary: k ns)
  case Nil
  then show ?case by simp
next
  case (Cons a ts)
  obtain h m l where a: "a = (h, m, l)" by (cases a)
  have "appends (admitted now task profile prefs) (Suc k) ns0
          (if num_gt (setHours due (Num h) (Num m)) (Num now)
           then addNotification now clock task profile e prefs due (setHours due (Num h) (Num m))
                  (''High priority due date - '' @ l @ '' reminder'') Reminder High ns
           else ns)"
    using Cons.prems by (rule appends_step)
  from Cons.IH [OF this] show ?case
    by (simp add: a Let_def)
qed

lemma length_dayTimes: "length (dayTimes b) \<le> 3"
  by (simp add: dayTimes_def)

lemma highDateOnly_appends:
  "appends (admitted now task profile prefs) 4 ns0
     (highDateOnly now clock task profile e prefs due today ns0)"
proof -
  let ?A = "admitted now task profile prefs"
  let ?b = "frequencyMultiplier prefs \<le> 1 / 2"
  let ?ns1 = "foldl (\<lambda>ns (hour, minute, label).
               let notifTime = setHours due (Num hour) (Num minute)
               in if num_gt notifTime (Num now)
                  then addNotification now clock task profile e prefs due notifTime
                         (''High priority due date - '' @ label @ '' reminder'') Reminder High ns
                  else ns) ns0 (dayTimes ?b)"
  have "appends ?A (0 + length (dayTimes ?b)) ns0 ?ns1"
    by (rule dayTimes_fold_appends) (rule appends_refl)
  then have 1: "appends ?A 3 ns0 ?ns1"
    by (rule appends_mono) (simp add: length_dayTimes)
  have "appends ?A (Suc 3) ns0 (highDateOnly now clock task profile e prefs due today ns0)"
    unfolding highDateOnly_def Let_def
    by (rule appends_step [OF 1 [unfolded Let_def]]) simp
  then show ?thesis by simp
qed

lemma mediumBranch_appends:
  "appends (admitted now task profile prefs) 2 ns0
     (mediumBranch now clock task profile e prefs due spec ns0)"
proof (cases spec)
  case True
  have "appends (admitted now task profile prefs) (Suc (Suc 0)) ns0
     (mediumBranch now clock task profile e prefs due spec ns0)"
    using True unfolding mediumBranch_def Let_def
    by (simp only: if_True) (intro appends_step appends_refl; simp)
  then show ?thesis by (simp add: eval_nat_numeral)
next
  case False
  have "appends (admitted now task profile prefs) (Suc 0) ns0
     (mediumBranch now clock task profile e prefs due spec ns0)"
    using False unfolding mediumBranch_def Let_def
    by (simp only: if_False) (intro appends_step appends_refl; simp)
  then show ?thesis by (rule appends_mono) simp
qed

lemma length_addNotification:
  "length (addNotification now clock task profile e prefs due t r ty lv ns) \<le> Suc (length ns)"
  by (simp add: addNotification_def Let_def)

lemma length_overdueBranch:
  "length (overdueBranch now clock task profile e prefs due) \<le> 1"
  using length_addNotification [of now clock task profile e prefs due _ _ Overdue _ "[]"]
  by (simp add: overdueBranch_def Let_def)

lemma length_noDueDate: "length (noDueDate now task profile prefs) \<le> 1"
  by (simp add: noDueDate_def Let_def)

lemma length_insertByTime: "length (insertByTime x ys) = Suc (length ys)"
  by (induction ys) simp_all

lemma length_sortByTime: "length (sortByTime ns) = length ns"
  by (induction ns) (simp_all add: sortByTime_def length_insertByTime)








lemma calculate_cases:
  "notifications (calculateNotificationSchedule now clock task profile e prefs) = [] \<or>
   due_date task = None \<and>
     notifications (calculateNotificationSchedule now clock task profile e prefs) =
       noDueDate now task profile prefs \<or>
   (\<exists>due. due_date task = Some due \<and>
      num_lt (setHours due (Num 0) (Num 0)) (setHours (Num now) (Num 0) (Num 0)) \<and>
      notifications (calculateNotificationSchedule now clock task profile e prefs) =
        overdueBranch now clock task profile e prefs due) \<or>
   (\<exists>due ns. due_date task = Some due \<and> appends (admitted now task profile prefs) 4 [] ns \<and>
      notifications (calculateNotificationSchedule now clock task profile e prefs) =
        sortByTime ns)"
proof (cases "status task = ''completed'' \<or> priority task \<in> set (disabledPriorities prefs) \<or>
              priority task = ''low''")
  case True
  then show ?thesis by (auto simp: calculateNotificationSchedule_def)
next
  case go: False
  show ?thesis
  proof (cases "due_date task")
    case None
    with go show ?thesis by (simp add: calculateNotificationSchedule_def)
  next
    case (Some due)
    show ?thesis
    proof (cases "num_lt (setHours due (Num 0) (Num 0)) (setHours (Num now) (Num 0) (Num 0))")
      case True
      with go Some show ?thesis by (simp add: calculateNotificationSchedule_def)
    next
      case False
      let ?A = "admitted now task profile prefs"
      let ?today = "num_eq (setHours due (Num 0) (Num 0)) (setHours (Num now) (Num 0) (Num 0))"
      let ?ns1 = "if priority task = ''high'' then
                    (if hasSpecificTime due then
                       highSpecificTime now clock task profile e prefs due []
                     else highDateOnly now clock task profile e prefs due ?today [])
                  else []"
      let ?ns2 = "if priority task = ''medium'' then
                    mediumBranch now clock task profile e prefs due (hasSpecificTime due) ?ns1
                  else ?ns1"
      have "appends ?A 4 [] ?ns2"
      proof (cases "priority task = ''high''")
        case True
        then show ?thesis
          by (simp add: highSpecificTime_appends highDateOnly_appends)
      next
        case False
        have "appends ?A 2 [] (mediumBranch now clock task profile e prefs due (hasSpecificTime due) [])"
          by (rule mediumBranch_appends)
        then have "appends ?A 4 [] (mediumBranch now clock task profile e prefs due (hasSpecificTime due) [])"
          by (rule appends_mono) simp
        with False show ?thesis by (simp add: appends_refl)
      qed
      moreover have "notifications (calculateNotificationSchedule now clock task profile e prefs) =
        sortByTime ?ns2"
        using go Some False by (simp add: calculateNotificationSchedule_def Let_def)
      ultimately show ?thesis using Some by blast
    qed
  qed
qed


lemma calculate_branches:
  obtains "notifications (calculateNotificationSchedule now clock task profile e prefs) = []"
  | "due_date task = None"
    "notifications (calculateNotificationSchedule now clock task profile e prefs) =
       noDueDate now task profile prefs"
  | due where "due_date task = Some due"
    "notifications (calculateNotificationSchedule now clock task profile e prefs) =
       overdueBranch now clock task profile e prefs due"
  | due ns where "due_date task = Some due"
    "appends (admitted now task profile prefs) 4 [] ns"
    "notifications (calculateNotificationSchedule now clock task profile e prefs) =
       sortByTime ns"
  using calculate_cases [of now clock task profile e prefs]
  by (elim disjE conjE exE) blast+


lemma addNotification_overdue:
  "addNotification now clock task profile e prefs due t r ty lv [] = [] \<or>
   (\<exists>n. addNotification now clock task profile e prefs due t r ty lv [] = [n] \<and>
        type_N n = ty \<and> priority_N n = lv \<and>
        time n = adjustToWorkHours t profile (category task = Some ''work''))"
  by (simp add: addNotification_def Let_def)




section \<open>The sample data\<close>

lemma timeOfDay_sampleProfile:
  "timeOfDay (work_hours_start sampleProfile)" "timeOfDay (work_hours_end sampleProfile)"
  by (simp_all add: timeOfDay_def sampleProfile_def split_hm_def Number_def digit_of_def)

lemma split_hm_sampleProfile:
  "split_hm (work_hours_start sampleProfile) = (Num 9, Num 0)"
  "split_hm (work_hours_end sampleProfile) = (Num 18, Num 0)"
  by (simp_all add: sampleProfile_def split_hm_def Number_def digit_of_def)

section \<open>Properties of every schedule\<close>

text \<open>
  C10. A schedule has at most 4 notifications, and it carries the id and the title of the
  task it was computed for.
\<close>

theorem C10_at_most_four:
  "length (notifications (calculateNotificationSchedule now clock task profile
             existingOverdueReminders preferences)) \<le> 4 \<and>
   taskId (calculateNotificationSchedule now clock task profile
             existingOverdueReminders preferences) = id_T task \<and>
   taskTitle (calculateNotificationSchedule now clock task profile
             existingOverdueReminders preferences) = title task"
proof (intro conjI)
  let ?ns = "notifications (calculateNotificationSchedule now clock task profile
             existingOverdueReminders preferences)"
  consider "?ns = []"
    | "due_date task = None" "?ns = noDueDate now task profile preferences"
    | due where "due_date task = Some due"
        "?ns = overdueBranch now clock task profile existingOverdueReminders preferences due"
    | due ns where "due_date task = Some due"
        "appends (admitted now task profile preferences) 4 [] ns" "?ns = sortByTime ns"
    by (rule calculate_branches [of now clock task profile existingOverdueReminders preferences])
  then show "length ?ns \<le> 4"
  proof cases
    case 1
    then show ?thesis by simp
  next
    case 2
    then show ?thesis using length_noDueDate [of now task profile preferences] by simp
  next
    case 3
    then show ?thesis
      using length_overdueBranch [of now clock task profile existingOverdueReminders preferences due]
      by simp
  next
    case 4
    then show ?thesis
      using appends_length [of _ 4 "[]" ns] by (simp add: length_sortByTime)
  qed
next
  show "taskId (calculateNotificationSchedule now clock task profile
             existingOverdueReminders preferences) = id_T task"
    by (simp add: calculateNotificationSchedule_def Let_def split: option.splits)
next
  show "taskTitle (calculateNotificationSchedule now clock task profile
             existingOverdueReminders preferences) = title task"
    by (simp add: calculateNotificationSchedule_def Let_def split: option.splits)
qed


theorem C10_at_most_four_witness:
  "length (notifications
     (calculateNotificationSchedule (localTime 20000 10 0) (\<lambda>k. localTime 20000 10 0)
        (sampleTask\<lparr>due_date := Some (Num (localTime 20002 0 0)), category := None\<rparr>)
        sampleProfile 0 DEFAULT_NOTIFICATION_PREFERENCES)) \<le> 4 \<and>
   taskId
     (calculateNotificationSchedule (localTime 20000 10 0) (\<lambda>k. localTime 20000 10 0)
        (sampleTask\<lparr>due_date := Some (Num (localTime 20002 0 0)), category := None\<rparr>)
        sampleProfile 0 DEFAULT_NOTIFICATION_PREFERENCES) = ''t1'' \<and>
   taskTitle
     (calculateNotificationSchedule (localTime 20000 10 0) (\<lambda>k. localTime 20000 10 0)
        (sampleTask\<lparr>due_date := Some (Num (localTime 20002 0 0)), category := None\<rparr>)
        sampleProfile 0 DEFAULT_NOTIFICATION_PREFERENCES) = ''Report''"
  using C10_at_most_four [of "localTime 20000 10 0" "\<lambda>k. localTime 20000 10 0"
      "sampleTask\<lparr>due_date := Some (Num (localTime 20002 0 0)), category := None\<rparr>"
      sampleProfile 0 DEFAULT_NOTIFICATION_PREFERENCES]
  by (simp add: sampleTask_def)

text \<open>The bound is reached: a high-priority task due in two days, with a date only.\<close>

lemma four_notifications_attained:
  "map time (notifications
     (calculateNotificationSchedule (localTime 20000 10 0) (\<lambda>k. localTime 20000 10 0)
        (sampleTask\<lparr>due_date := Some (Num (localTime 20002 0 0)), category := None\<rparr>)
        sampleProfile 0 DEFAULT_NOTIFICATION_PREFERENCES)) =
   [Num (localTime 20001 9 0), Num (localTime 20002 9 0), Num (localTime 20002 14 0),
    Num (localTime 20002 18 0)]"
  by code_simp







section \<open>Tasks without a due date\<close>

text \<open>
  C2. The specification gives every high-priority task without due date one daily
  summary. In the code such a task, neither completed nor disabled, whose category is not
  \<^verbatim>\<open>work\<close> gets no notification at all: the only \<^verbatim>\<open>push\<close> of that branch is inside
  the test of \<^verbatim>\<open>isWorkTask\<close>.
\<close>

theorem C2_no_due_date_not_work:
  assumes "status task \<noteq> ''completed''" and "priority task = ''high''"
    and "''high'' \<notin> set (disabledPriorities preferences)"
    and "due_date task = None" and "category task \<noteq> Some ''work''"
  shows "notifications (calculateNotificationSchedule now clock task profile
           existingOverdueReminders preferences) = []"
  using assms by (simp add: calculateNotificationSchedule_def noDueDate_def Let_def)

theorem C2_no_due_date_not_work_witness:
  "notifications
     (calculateNotificationSchedule (localTime 20000 10 0) (\<lambda>k. localTime 20000 10 0)
        (sampleTask\<lparr>category := Some ''personal''\<rparr>)
        sampleProfile 0 DEFAULT_NOTIFICATION_PREFERENCES) = []"
  using C2_no_due_date_not_work [of "sampleTask\<lparr>category := Some ''personal''\<rparr>"
      DEFAULT_NOTIFICATION_PREFERENCES "localTime 20000 10 0" "\<lambda>k. localTime 20000 10 0"
      sampleProfile 0]
  by (simp add: sampleTask_def DEFAULT_NOTIFICATION_PREFERENCES_def)

section \<open>Overdue tasks\<close>





section \<open>Adjusting to work hours\<close>

lemma day_arith:
  fixes D h m :: int
  assumes "0 \<le> h" "h < 24" "0 \<le> m" "m < 60"
  shows "(D * 86400000 + h * 3600000 + m * 60000) div 86400000 = D"
    and "hourOfDay (D * 86400000 + h * 3600000 + m * 60000) = h"
    and "minuteOfDay (D * 86400000 + h * 3600000 + m * 60000) = h * 60 + m"
proof -
  let ?x = "h * 3600000 + m * 60000"
  have x: "0 \<le> ?x" "?x < 86400000" using assms by auto
  have "(D * 86400000 + ?x) div 86400000 = D"
    using x by (simp add: div_pos_pos_trivial)
  then show "(D * 86400000 + h * 3600000 + m * 60000) div 86400000 = D"
    by (simp add: add.assoc)
  have "D * 86400000 + h * 3600000 + m * 60000 = (D * 24 + h) * 3600000 + m * 60000"
    by simp
  moreover have "((D * 24 + h) * 3600000 + m * 60000) div 3600000 = D * 24 + h"
    using assms by (simp add: div_pos_pos_trivial)
  ultimately have hd: "(D * 86400000 + h * 3600000 + m * 60000) div 3600000 = D * 24 + h"
    by simp
  have hm: "(D * 24 + h) mod 24 = h"
    using assms by (simp add: mod_pos_pos_trivial)
  show hh: "hourOfDay (D * 86400000 + h * 3600000 + m * 60000) = h"
    unfolding hourOfDay_def hd hm ..
  have "D * 86400000 + h * 3600000 + m * 60000 = (D * 1440 + h * 60 + m) * 60000"
    by simp
  then have md: "(D * 86400000 + h * 3600000 + m * 60000) div 60000 = D * 1440 + h * 60 + m"
    by simp
  have "((D * 24 + h) * 60 + m) mod 60 = m mod 60"
    by (rule mod_mult_self3)
  also have "m mod 60 = m"
    using assms by (simp add: mod_pos_pos_trivial)
  finally have "((D * 24 + h) * 60 + m) mod 60 = m" .
  moreover have "D * 1440 + h * 60 + m = (D * 24 + h) * 60 + m" by simp
  ultimately have mm: "(D * 1440 + h * 60 + m) mod 60 = m"
    by (simp only:)
  show "minuteOfDay (D * 86400000 + h * 3600000 + m * 60000) = h * 60 + m"
    using hh unfolding minuteOfDay_def hourOfDay_def md mm by simp
qed

lemma minuteOfDay_hour:
  "minuteOfDay t = hourOfDay t * 60 + (t div 60000) mod 60"
  by (simp add: minuteOfDay_def hourOfDay_def)

lemma within_hours:
  assumes "0 \<le> sm" "em < 60"
    and "sh * 60 + sm \<le> minuteOfDay t" "minuteOfDay t \<le> eh * 60 + em"
  shows "sh \<le> hourOfDay t \<and> hourOfDay t \<le> eh"
proof -
  have "0 \<le> (t div 60000) mod 60" "(t div 60000) mod 60 < 60"
    by simp_all
  then show ?thesis
    using assms unfolding minuteOfDay_hour by linarith
qed

lemma addNotification_time:
  "addNotification now clock task profile e prefs due t r ty lv ns = ns \<or>
   (\<exists>n. addNotification now clock task profile e prefs due t r ty lv ns = ns @ [n] \<and>
        time n = adjustToWorkHours t profile (category task = Some ''work''))"
  by (simp add: addNotification_def Let_def)

text \<open>
  C7, as amended. \<open>adjustToWorkHours\<close> returns the time unchanged for a task that is not a
  work task. For a work task and work hours that are times of day, a time whose hour is
  before the start hour moves to the start of work on the same day, a time whose hour is
  after the end hour (and not before the start hour) moves to the end of work on the same
  day, and a time whose minute of the day lies within the work hours stays. The admission test
  applies the adjustment to every candidate of a work task, whether the due date has a
  specific time or not.
\<close>

theorem C7_adjust_to_work_hours:
  assumes "timeOfDay (work_hours_start profile)" and "timeOfDay (work_hours_end profile)"
    and "split_hm (work_hours_start profile) = (Num sh, Num sm)"
    and "split_hm (work_hours_end profile) = (Num eh, Num em)"
  shows "adjustToWorkHours d profile False = d \<and>
    (hourOfDay t < sh \<longrightarrow>
       (\<exists>r. adjustToWorkHours (Num t) profile True = Num r \<and>
            r div 86400000 = t div 86400000 \<and> minuteOfDay r = sh * 60 + sm)) \<and>
    (sh \<le> hourOfDay t \<and> eh < hourOfDay t \<longrightarrow>
       (\<exists>r. adjustToWorkHours (Num t) profile True = Num r \<and>
            r div 86400000 = t div 86400000 \<and> minuteOfDay r = eh * 60 + em)) \<and>
    (sh * 60 + sm \<le> minuteOfDay t \<and> minuteOfDay t \<le> eh * 60 + em \<longrightarrow>
       adjustToWorkHours (Num t) profile True = Num t) \<and>
    (addNotification now clock task profile e prefs due c r ty lv ns = ns \<or>
     (\<exists>n. addNotification now clock task profile e prefs due c r ty lv ns = ns @ [n] \<and>
          time n = adjustToWorkHours c profile (category task = Some ''work'')))"
proof -
  have s: "0 \<le> sh" "sh < 24" "0 \<le> sm" "sm < 60"
    using assms(1,3) by (simp_all add: timeOfDay_def)
  have e: "0 \<le> eh" "eh < 24" "0 \<le> em" "em < 60"
    using assms(2,4) by (simp_all add: timeOfDay_def)
  have adj: "adjustToWorkHours (Num t) profile True =
          (if hourOfDay t < sh then Num ((t div 86400000) * 86400000 + sh * 3600000 + sm * 60000)
           else if eh < hourOfDay t then Num ((t div 86400000) * 86400000 + eh * 3600000 + em * 60000)
           else Num t)"
    using assms(3,4) by (simp add: adjustToWorkHours_def date_simps num_simps hourOfDay_def)
  have 1: "adjustToWorkHours d profile False = d"
    by (simp add: adjustToWorkHours_def)
  have 2: "hourOfDay t < sh \<longrightarrow>
       (\<exists>r. adjustToWorkHours (Num t) profile True = Num r \<and>
            r div 86400000 = t div 86400000 \<and> minuteOfDay r = sh * 60 + sm)"
    using day_arith(1,3) [OF s] by (simp add: adj)
  have 3: "sh \<le> hourOfDay t \<and> eh < hourOfDay t \<longrightarrow>
       (\<exists>r. adjustToWorkHours (Num t) profile True = Num r \<and>
            r div 86400000 = t div 86400000 \<and> minuteOfDay r = eh * 60 + em)"
    using day_arith(1,3) [OF e] by (simp add: adj)
  have 4: "sh * 60 + sm \<le> minuteOfDay t \<and> minuteOfDay t \<le> eh * 60 + em \<longrightarrow>
       adjustToWorkHours (Num t) profile True = Num t"
    using within_hours [OF s(3) e(4), of sh t eh] by (auto simp: adj)
  show ?thesis
    using 1 2 3 4 addNotification_time [of now clock task profile e prefs due c r ty lv ns]
    by blast
qed

theorem C7_adjust_to_work_hours_witness:
  "adjustToWorkHours (Num (localTime 20000 7 30)) sampleProfile False = Num (localTime 20000 7 30) \<and>
   (\<exists>r. adjustToWorkHours (Num (localTime 20000 7 30)) sampleProfile True = Num r \<and>
        r div 86400000 = 20000 \<and> minuteOfDay r = 540) \<and>
   adjustToWorkHours (Num (localTime 20000 12 15)) sampleProfile True = Num (localTime 20000 12 15) \<and>
   (\<exists>r. adjustToWorkHours (Num (localTime 20000 21 0)) sampleProfile True = Num r \<and>
        r div 86400000 = 20000 \<and> minuteOfDay r = 1080)"
  using C7_adjust_to_work_hours [OF timeOfDay_sampleProfile split_hm_sampleProfile,
      of "Num (localTime 20000 7 30)" "localTime 20000 7 30"]
    C7_adjust_to_work_hours [OF timeOfDay_sampleProfile split_hm_sampleProfile,
      of _ "localTime 20000 12 15"]
    C7_adjust_to_work_hours [OF timeOfDay_sampleProfile split_hm_sampleProfile,
      of _ "localTime 20000 21 0"]
  by (simp add: localTime_def hourOfDay_def minuteOfDay_def)

text \<open>
  C7 as the specification states it fails twice. A medium-priority work task due tomorrow
  with a date only, and work starting at 10:00, has its 09:00 reminder moved to 10:00. And
  with work ending at 17:00 a time of 17:45 stays, since only the hours are compared.
\<close>

theorem C7_work_hours_counterexample:
  "\<not> hasSpecificTime (Num (localTime 20001 0 0)) \<and>
   map time (notifications
     (calculateNotificationSchedule (localTime 20000 10 0) (\<lambda>k. localTime 20000 10 0)
        (sampleTask\<lparr>due_date := Some (Num (localTime 20001 0 0)), priority := ''medium''\<rparr>)
        (sampleProfile\<lparr>work_hours_start := ''10:00''\<rparr>) 0 DEFAULT_NOTIFICATION_PREFERENCES))
     = [Num (localTime 20001 10 0)] \<and>
   localTime 20001 10 0 \<noteq> localTime 20001 9 0 \<and>
   adjustToWorkHours (Num (localTime 20000 17 45))
     (sampleProfile\<lparr>work_hours_end := ''17:00''\<rparr>) True = Num (localTime 20000 17 45) \<and>
   minuteOfDay (localTime 20000 17 45) > 17 * 60 + 0"
  by code_simp

section \<open>The daily summary of a work task\<close>

text \<open>
  For a high-priority work task without due date the branch does what the specification
  says: the summary is set for the next day, at the start of the peak-energy window moved
  into the work hours, which is always later than \<open>now\<close>; only the quiet hours can
  suppress it. A task of another priority gets nothing there.
\<close>

lemma adjustToWorkHours_Num:
  assumes "split_hm (work_hours_start profile) = (Num sh, Num sm)"
    and "split_hm (work_hours_end profile) = (Num eh, Num em)"
  shows "adjustToWorkHours (Num t) profile True =
          (if hourOfDay t < sh then Num ((t div 86400000) * 86400000 + sh * 3600000 + sm * 60000)
           else if eh < hourOfDay t then Num ((t div 86400000) * 86400000 + eh * 3600000 + em * 60000)
           else Num t)"
  using assms by (simp add: adjustToWorkHours_def date_simps num_simps hourOfDay_def)

lemma next_day_later: "(now div 86400000 + 1) * 86400000 > (now :: int)"
proof -
  have "now = now div 86400000 * 86400000 + now mod 86400000" by simp
  moreover have "now mod 86400000 < 86400000" by simp
  moreover have "(now div 86400000 + 1) * 86400000 = now div 86400000 * 86400000 + 86400000"
    by (simp add: algebra_simps)
  ultimately show ?thesis by linarith
qed

lemma peak_start_range:
  "0 \<le> fst (getPeakEnergyHours p) \<and> fst (getPeakEnergyHours p) < 24"
  by (simp add: getPeakEnergyHours_def)

lemma noDueDate_work_task:
  assumes "timeOfDay (work_hours_start profile)" and "timeOfDay (work_hours_end profile)"
    and "priority task = ''high''" and "category task = Some ''work''"
  shows "\<exists>r. adjustToWorkHours
              (setHours (addDays (Num now) 1)
                 (Num (fst (getPeakEnergyHours (peak_energy_time profile)))) (Num 0))
              profile True = Num r \<and>
             r div 86400000 = now div 86400000 + 1 \<and> now < r \<and>
             map (\<lambda>n. (time n, type_N n)) (noDueDate now task profile prefs) =
               (if isInQuietHours (Num r) prefs then [] else [(Num r, DailySummary)])"
proof -
  let ?p = "fst (getPeakEnergyHours (peak_energy_time profile))"
  let ?D = "now div 86400000 + 1"
  let ?c = "?D * 86400000 + ?p * 3600000 + 0 * 60000"
  obtain sh sm where s: "split_hm (work_hours_start profile) = (Num sh, Num sm)"
    "0 \<le> sh" "sh < 24" "0 \<le> sm" "sm < 60"
    using assms(1) by (auto simp: timeOfDay_def split: prod.splits number.splits)
  obtain eh em where e: "split_hm (work_hours_end profile) = (Num eh, Num em)"
    "0 \<le> eh" "eh < 24" "0 \<le> em" "em < 60"
    using assms(2) by (auto simp: timeOfDay_def split: prod.splits number.splits)
  have p: "0 \<le> ?p" "?p < 24" using peak_start_range by simp_all
  have z: "(0::int) \<le> 0" "(0::int) < 60" by simp_all
  have "(now + 1 * 86400000) div 86400000 = ?D" by simp
  then have c: "setHours (addDays (Num now) 1) (Num ?p) (Num 0) = Num ?c"
    by (simp add: date_simps)
  have cd: "?c div 86400000 = ?D"
    by (rule day_arith(1) [OF p z])
  define r where "r = (if hourOfDay ?c < sh then ?D * 86400000 + sh * 3600000 + sm * 60000
           else if eh < hourOfDay ?c then ?D * 86400000 + eh * 3600000 + em * 60000
           else ?c)"
  have adj: "adjustToWorkHours (Num ?c) profile True = Num r"
    unfolding adjustToWorkHours_Num [OF s(1) e(1)] cd r_def by simp
  have rd: "r div 86400000 = ?D"
    unfolding r_def using day_arith(1) [OF s(2-5), of ?D] day_arith(1) [OF e(2-5), of ?D] cd
    by simp
  have "?D * 86400000 \<le> r"
    unfolding r_def using s(2,4) e(2,4) p(1) by auto
  then have later: "now < r"
    using next_day_later [of now] by linarith
  have "map (\<lambda>n. (time n, type_N n)) (noDueDate now task profile prefs) =
               (if isInQuietHours (Num r) prefs then [] else [(Num r, DailySummary)])"
    unfolding noDueDate_def Let_def c adj using assms(3,4) later by (simp add: num_simps)
  with adj rd later show ?thesis
    unfolding c by blast
qed

lemma noDueDate_medium:
  "priority task \<noteq> ''high'' \<Longrightarrow> noDueDate now task profile prefs = []"
  by (simp add: noDueDate_def)

end
